theory Spec2Isabelle
  imports Main
begin

section \<open>Python values\<close>

text \<open>
  The payload handed to \<^verbatim>\<open>Sticker._from_data\<close> is a decoded JSON object. The model
  covers the JSON scalars \<^verbatim>\<open>null\<close>, booleans, integers and strings as payload values;
  arrays, nested objects and floats are outside the model. A \<open>string\<close> is a sequence
  of code points below 256, one \<open>char\<close> each. Python integers are unbounded, hence
  \<open>int\<close>.
\<close>

datatype json = JNull | JBool bool | JInt int | JStr string

text \<open>A member of an enumeration class: the class it belongs to and its name.\<close>

datatype enum_member = EnumMember (enum_class: string) (member_name: string)

text \<open>
  The objects an attribute of a sticker can hold: a value taken from the payload (or a
  value computed from one), an enumeration member, the list of tags, and the state
  object, which is opaque here.
\<close>

datatype pyval =
    Json json
  | Member enum_member
  | StrList "string list"
  | StateObject

abbreviation None_val :: pyval where
  "None_val \<equiv> Json JNull"

datatype error = KeyError string | ValueError | TypeError | AttributeError

type_synonym payload = "string \<rightharpoonup> json"

definition bind :: "error + 'a \<Rightarrow> ('a \<Rightarrow> error + 'b) \<Rightarrow> error + 'b" where
  "bind r f = (case r of Inl e \<Rightarrow> Inl e | Inr v \<Rightarrow> f v)"

text \<open>\<^verbatim>\<open>try: ... except KeyError: ...\<close> with a handler that yields a value.\<close>

definition except_KeyError :: "error + 'a \<Rightarrow> 'a \<Rightarrow> error + 'a" where
  "except_KeyError r d =
     (case r of Inl (KeyError k) \<Rightarrow> Inr d | Inl e \<Rightarrow> Inl e | Inr v \<Rightarrow> Inr v)"

text \<open>\<^verbatim>\<open>d[k]\<close> and \<^verbatim>\<open>d.get(k, default)\<close> on a dict.\<close>

definition getitem :: "payload \<Rightarrow> string \<Rightarrow> error + json" where
  "getitem d k = (case d k of None \<Rightarrow> Inl (KeyError k) | Some v \<Rightarrow> Inr v)"

definition get :: "payload \<Rightarrow> string \<Rightarrow> json \<Rightarrow> json" where
  "get d k dflt = (case d k of None \<Rightarrow> dflt | Some v \<Rightarrow> v)"

subsection \<open>Strings: \<^verbatim>\<open>strip\<close>, \<^verbatim>\<open>split\<close>, \<^verbatim>\<open>str\<close>\<close>

text \<open>
  \<^verbatim>\<open>str.isspace\<close> on one character: the code points below 256 that Python treats
  as whitespace.
\<close>

definition isspace :: "char \<Rightarrow> bool" where
  "isspace c =
     (let n = (of_char c :: nat)
      in (9 \<le> n \<and> n \<le> 13) \<or> (28 \<le> n \<and> n \<le> 32) \<or> n = 133 \<or> n = 160)"

text \<open>\<^verbatim>\<open>s.strip()\<close>: leading and trailing whitespace removed.\<close>

definition strip :: "string \<Rightarrow> string" where
  "strip s = rev (dropWhile isspace (rev (dropWhile isspace s)))"

text \<open>
  \<^verbatim>\<open>s.split(sep)\<close> for a one-character separator: the pieces between the
  separators, empty pieces kept, so the empty string gives one empty piece.
\<close>

fun split :: "char \<Rightarrow> string \<Rightarrow> string list" where
  "split sep [] = [[]]"
| "split sep (c # cs) =
     (if c = sep then [] # split sep cs
      else (let ps = split sep cs in (c # hd ps) # tl ps))"

text \<open>\<^verbatim>\<open>sep.join(pieces)\<close>, the inverse of \<^verbatim>\<open>split\<close>.\<close>

fun join :: "char \<Rightarrow> string list \<Rightarrow> string" where
  "join sep [] = []"
| "join sep [p] = p"
| "join sep (p # q # ps) = p @ sep # join sep (q # ps)"

text \<open>A payload value has a \<^verbatim>\<open>split\<close> method only when it is a string.\<close>

fun split_method :: "json \<Rightarrow> char \<Rightarrow> error + string list" where
  "split_method (JStr s) sep = Inr (split sep s)"
| "split_method v sep = Inl AttributeError"

text \<open>Decimal rendering of an integer, as \<^verbatim>\<open>str\<close> and \<^verbatim>\<open>format\<close> give it.\<close>

definition digit_char :: "nat \<Rightarrow> char" where
  "digit_char d = ''0123456789'' ! d"

fun show_nat :: "nat \<Rightarrow> string" where
  "show_nat n =
     (if n < 10 then [digit_char n] else show_nat (n div 10) @ [digit_char (n mod 10)])"

declare show_nat.simps [simp del]

definition show_int :: "int \<Rightarrow> string" where
  "show_int i = (if i < 0 then CHR ''-'' # show_nat (nat (- i)) else show_nat (nat i))"

text \<open>\<^verbatim>\<open>str(v)\<close> of a payload value.\<close>

fun str_json :: "json \<Rightarrow> string" where
  "str_json JNull = ''None''"
| "str_json (JBool b) = (if b then ''True'' else ''False'')"
| "str_json (JInt i) = show_int i"
| "str_json (JStr s) = s"

subsection \<open>\<^verbatim>\<open>int(v)\<close>\<close>

text \<open>
  \<^verbatim>\<open>int\<close> of a string skips surrounding whitespace, reads an optional sign and then
  decimal digits, where single underscores may stand between digits. The whitespace
  it skips leaves out the separators 28 to 31 that \<^verbatim>\<open>strip\<close> removes.
\<close>

definition int_isspace :: "char \<Rightarrow> bool" where
  "int_isspace c =
     (let n = (of_char c :: nat)
      in (9 \<le> n \<and> n \<le> 13) \<or> n = 32 \<or> n = 133 \<or> n = 160)"

definition is_digit :: "char \<Rightarrow> bool" where
  "is_digit c = (let n = (of_char c :: nat) in 48 \<le> n \<and> n \<le> 57)"

definition digit_val :: "char \<Rightarrow> nat" where
  "digit_val c = of_char c - 48"

fun scan_digits :: "char \<Rightarrow> nat \<Rightarrow> string \<Rightarrow> nat option" where
  "scan_digits prev acc [] = (if prev = CHR ''_'' then None else Some acc)"
| "scan_digits prev acc (c # cs) =
     (if is_digit c then scan_digits c (10 * acc + digit_val c) cs
      else if c = CHR ''_'' \<and> prev \<noteq> CHR ''_'' then scan_digits c acc cs
      else None)"

definition parse_digits :: "string \<Rightarrow> nat option" where
  "parse_digits s =
     (case s of [] \<Rightarrow> None
      | c # cs \<Rightarrow> if is_digit c then scan_digits c (digit_val c) cs else None)"

definition int_of_str :: "string \<Rightarrow> error + int" where
  "int_of_str s =
     (let t = rev (dropWhile int_isspace (rev (dropWhile int_isspace s)));
          (neg, ds) = (case t of
                         c # cs \<Rightarrow> if c = CHR ''-'' then (True, cs)
                                   else if c = CHR ''+'' then (False, cs)
                                   else (False, t)
                       | [] \<Rightarrow> (False, t))
      in case parse_digits ds of
           None \<Rightarrow> Inl ValueError
         | Some n \<Rightarrow> Inr (if neg then - int n else int n))"

fun py_int :: "json \<Rightarrow> error + int" where
  "py_int JNull = Inl TypeError"
| "py_int (JBool b) = Inr (if b then 1 else 0)"
| "py_int (JInt i) = Inr i"
| "py_int (JStr s) = int_of_str s"

section \<open>The enumerations\<close>

text \<open>
  Modelled from the spec: the module \<^verbatim>\<open>enums\<close> (the classes \<^verbatim>\<open>StickerFormatType\<close>
  and \<^verbatim>\<open>StickerType\<close> and the function \<^verbatim>\<open>try_enum\<close>) is not among the sources. The
  spec says that \<open>format\<close> and \<open>type\<close> come from an enumerated lookup of the payload's
  code, that an unrecognized code gives a fallback carrying the raw code and never a
  failure, that \<open>format\<close> is the string rendering of the enumerated value, and that
  there is a lottie sticker-type sentinel. So an environment holds, for each class,
  the table from codes to members, the string rendering of a member, and the member
  \<^verbatim>\<open>StickerType.lottie\<close>; nothing is fixed about the codes or the names.
\<close>

record enums =
  StickerFormatType :: "json \<rightharpoonup> enum_member"
  StickerType :: "json \<rightharpoonup> enum_member"
  str_member :: "enum_member \<Rightarrow> string"
  StickerType_lottie :: enum_member

text \<open>
  Modelled from the spec: \<^verbatim>\<open>try_enum(cls, val)\<close> is the member the class has for the
  code, or the raw value itself when the class has none.
\<close>

definition try_enum :: "(json \<rightharpoonup> enum_member) \<Rightarrow> json \<Rightarrow> pyval" where
  "try_enum cls val = (case cls val of Some m \<Rightarrow> Member m | None \<Rightarrow> Json val)"

text \<open>
  \<^verbatim>\<open>str(x)\<close> of what \<^verbatim>\<open>try_enum\<close> returns, a member or a payload value. The
  last equation only makes the function total: it is never used.
\<close>

fun str_val :: "enums \<Rightarrow> pyval \<Rightarrow> string" where
  "str_val E (Member m) = str_member E m"
| "str_val E (Json v) = str_json v"
| "str_val E v = []"

text \<open>
  \<^verbatim>\<open>x is m\<close> for an enumeration member \<open>m\<close>: members are unique objects, and a
  string, a number, a list or \<^verbatim>\<open>None\<close> is never one of them.
\<close>

fun is_member :: "pyval \<Rightarrow> enum_member \<Rightarrow> bool" where
  "is_member (Member m') m = (m' = m)"
| "is_member v m = False"

section \<open>The sticker\<close>

text \<open>
  One field per slot of \<^verbatim>\<open>Sticker\<close>; \<open>state\<close> is \<^verbatim>\<open>_state\<close>, and \<open>id_attr\<close>,
  \<open>image_attr\<close> and \<open>type_attr\<close> are \<^verbatim>\<open>id\<close>, \<^verbatim>\<open>image\<close> and \<^verbatim>\<open>type\<close>. A field has the
  type the constructor gives it: \<^verbatim>\<open>int(...)\<close>, \<^verbatim>\<open>str(...)\<close>, a list of strings, or
  the payload's value as it is.
\<close>

record 'st sticker =
  state :: 'st
  id_attr :: int
  guild_id :: int
  name :: json
  description :: json
  pack_id :: int
  format :: string
  image_attr :: json
  type_attr :: pyval
  version :: json
  available :: json
  tags :: "string list"
  preview_image :: json

record guild =
  guild_ident :: int

text \<open>
  \<^verbatim>\<open>_from_data\<close> fills the slots of \<^verbatim>\<open>self\<close> in source order; the first statement
  that raises ends it. The two slots \<^verbatim>\<open>__init__\<close> has set before are passed in.
\<close>

definition from_data :: "enums \<Rightarrow> int \<Rightarrow> 'st \<Rightarrow> payload \<Rightarrow> error + 'st sticker" where
  "from_data E gid st sticker =
     bind (getitem sticker ''id'') (\<lambda>v_id.
     bind (py_int v_id) (\<lambda>i.
     bind (getitem sticker ''name'') (\<lambda>nm.
     bind (getitem sticker ''description'') (\<lambda>ds.
     bind (py_int (get sticker ''pack_id'' (JInt 0))) (\<lambda>pk.
     bind (getitem sticker ''format_type'') (\<lambda>ft.
     bind (except_KeyError (getitem sticker ''asset'') (JStr [])) (\<lambda>img.
     bind (getitem sticker ''type'') (\<lambda>ty.
     bind (getitem sticker ''version'') (\<lambda>ver.
     bind (getitem sticker ''available'') (\<lambda>av.
     bind (except_KeyError
             (bind (getitem sticker ''tags'') (\<lambda>t.
              bind (split_method t CHR '','') (\<lambda>ps. Inr (map strip ps)))) []) (\<lambda>tgs.
     Inr \<lparr> state = st, id_attr = i, guild_id = gid, name = nm, description = ds,
           pack_id = pk,
           format = str_val E (try_enum (StickerFormatType E) ft),
           image_attr = img,
           type_attr = try_enum (StickerType E) ty,
           version = ver, available = av, tags = tgs,
           preview_image = get sticker ''preview_asset'' JNull \<rparr>)))))))))))"

definition init :: "enums \<Rightarrow> guild \<Rightarrow> 'st \<Rightarrow> payload \<Rightarrow> error + 'st sticker" where
  "init E g st data = from_data E (guild_ident g) st data"

subsection \<open>Iteration over the slots\<close>

definition slots :: "string list" where
  "slots = [''_state'', ''id'', ''guild_id'', ''name'', ''description'', ''pack_id'',
            ''format'', ''image'', ''type'', ''version'', ''available'', ''tags'',
            ''preview_image'']"

text \<open>\<^verbatim>\<open>getattr(self, attr, default)\<close>.\<close>

definition getattr :: "'st sticker \<Rightarrow> string \<Rightarrow> pyval \<Rightarrow> pyval" where
  "getattr s attr dflt =
     (if attr = ''_state'' then StateObject
      else if attr = ''id'' then Json (JInt (id_attr s))
      else if attr = ''guild_id'' then Json (JInt (guild_id s))
      else if attr = ''name'' then Json (name s)
      else if attr = ''description'' then Json (description s)
      else if attr = ''pack_id'' then Json (JInt (pack_id s))
      else if attr = ''format'' then Json (JStr (format s))
      else if attr = ''image'' then Json (image_attr s)
      else if attr = ''type'' then type_attr s
      else if attr = ''version'' then Json (version s)
      else if attr = ''available'' then Json (available s)
      else if attr = ''tags'' then StrList (tags s)
      else if attr = ''preview_image'' then Json (preview_image s)
      else dflt)"

text \<open>The generator \<^verbatim>\<open>_iterator\<close>, as the list of the pairs it yields.\<close>

definition iterator :: "'st sticker \<Rightarrow> (string \<times> pyval) list" where
  "iterator s =
     concat (map (\<lambda>attr.
       if hd attr \<noteq> CHR ''_''
       then (let value = getattr s attr None_val
             in if value \<noteq> None_val then [(attr, value)] else [])
       else []) slots)"

subsection \<open>String conversion, equality, hash\<close>

text \<open>\<^verbatim>\<open>__str__\<close>; \<^verbatim>\<open>'{0.name}'.format(self)\<close> renders the attribute as \<^verbatim>\<open>str\<close> does.\<close>

definition to_str :: "'st sticker \<Rightarrow> string" where
  "to_str s =
     (if format s = ''apng'' \<or> format s = ''lottie'' \<or> format s = ''gif''
      then ''<a:'' @ str_json (name s) @ '':'' @ show_int (id_attr s) @ ''>''
      else ''<:'' @ str_json (name s) @ '':'' @ show_int (id_attr s) @ ''>'')"

text \<open>The right operand of \<^verbatim>\<open>==\<close> is any object: a sticker or something else.\<close>

datatype 'st pyobj = StickerObj "'st sticker" | OtherObj pyval

fun eq :: "'st sticker \<Rightarrow> 'st pyobj \<Rightarrow> bool" where
  "eq self (StickerObj other) = (id_attr self = id_attr other)"
| "eq self (OtherObj v) = False"

definition ne :: "'st sticker \<Rightarrow> 'st pyobj \<Rightarrow> bool" where
  "ne self other = (\<not> eq self other)"

text \<open>\<^verbatim>\<open>__hash__\<close>: \<^verbatim>\<open>self.id >> 22\<close> on an unbounded integer.\<close>

definition hash :: "'st sticker \<Rightarrow> int" where
  "hash self = drop_bit 22 (id_attr self)"

subsection \<open>The image URL\<close>

text \<open>
  \<^verbatim>\<open>Asset._from_sticker_url\<close> is not among the sources; it is the parameter
  \<open>from_sticker_url\<close>, called with the state, the sticker and the size. The keyword
  argument \<^verbatim>\<open>size\<close> is optional and defaults to 1024. The result is \<open>None\<close> for
  Python's \<^verbatim>\<open>None\<close> and otherwise what the call gives.
\<close>

definition image_url_as ::
  "enums \<Rightarrow> ('st \<Rightarrow> 'st sticker \<Rightarrow> int \<Rightarrow> 'r) \<Rightarrow> 'st sticker \<Rightarrow> int option \<Rightarrow> 'r option" where
  "image_url_as E from_sticker_url self size_arg =
     (let size = (case size_arg of None \<Rightarrow> 1024 | Some n \<Rightarrow> n)
      in if is_member (Json (JStr (format self))) (StickerType_lottie E)
         then None
         else Some (from_sticker_url (state self) self size))"

definition image_url ::
  "enums \<Rightarrow> ('st \<Rightarrow> 'st sticker \<Rightarrow> int \<Rightarrow> 'r) \<Rightarrow> 'st sticker \<Rightarrow> 'r option" where
  "image_url E from_sticker_url self = image_url_as E from_sticker_url self None"

section \<open>Example inputs\<close>

text \<open>
  Modelled from the spec: an environment to run the constructor in. The format kinds
  are png, apng, lottie and gif, as the spec lists them, and a member renders as its
  label; the codes are the ones the remote interface numbers them with.
\<close>

definition example_enums :: enums where
  "example_enums =
     \<lparr> StickerFormatType =
         [JInt 1 \<mapsto> EnumMember ''StickerFormatType'' ''png'',
          JInt 2 \<mapsto> EnumMember ''StickerFormatType'' ''apng'',
          JInt 3 \<mapsto> EnumMember ''StickerFormatType'' ''lottie'',
          JInt 4 \<mapsto> EnumMember ''StickerFormatType'' ''gif''],
       StickerType =
         [JInt 1 \<mapsto> EnumMember ''StickerType'' ''standard'',
          JInt 2 \<mapsto> EnumMember ''StickerType'' ''guild''],
       str_member = member_name,
       StickerType_lottie = EnumMember ''StickerType'' ''lottie'' \<rparr>"

text \<open>The payload with the required keys only.\<close>

definition required_payload :: payload where
  "required_payload =
     [''id'' \<mapsto> JStr ''123'', ''name'' \<mapsto> JStr ''n'', ''description'' \<mapsto> JStr ''d'',
      ''format_type'' \<mapsto> JInt 1, ''type'' \<mapsto> JInt 1, ''version'' \<mapsto> JInt 1,
      ''available'' \<mapsto> JBool True]"

text \<open>A payload with every optional key as well.\<close>

definition full_payload :: payload where
  "full_payload =
     required_payload(''pack_id'' \<mapsto> JStr ''456'', ''asset'' \<mapsto> JStr ''abc'',
       ''tags'' \<mapsto> JStr ''a, b ,c'', ''preview_asset'' \<mapsto> JStr ''def'')"

text \<open>A lottie sticker.\<close>

definition lottie_payload :: payload where
  "lottie_payload = required_payload(''format_type'' \<mapsto> JInt 3)"

text \<open>Codes that no enumeration knows.\<close>

definition unknown_codes_payload :: payload where
  "unknown_codes_payload =
     required_payload(''format_type'' \<mapsto> JInt 99, ''type'' \<mapsto> JInt 7)"

text \<open>The key \<^verbatim>\<open>tags\<close> present: with an empty string, with \<^verbatim>\<open>null\<close>.\<close>

definition empty_tags_payload :: payload where
  "empty_tags_payload = required_payload(''tags'' \<mapsto> JStr [])"

definition null_tags_payload :: payload where
  "null_tags_payload = required_payload(''tags'' \<mapsto> JNull)"

text \<open>Tags with an empty piece between two commas.\<close>

definition gap_tags_payload :: payload where
  "gap_tags_payload = required_payload(''tags'' \<mapsto> JStr ''a,,b'')"

text \<open>Two stickers with the same id and nothing else in common.\<close>

definition sticker_a :: "unit sticker" where
  "sticker_a =
     \<lparr> state = (), id_attr = 175928847299117063, guild_id = 7, name = JStr ''wave'',
       description = JStr ''d'', pack_id = 0, format = ''png'', image_attr = JStr [],
       type_attr = Json (JInt 1), version = JInt 1, available = JBool True,
       tags = [], preview_image = JNull \<rparr>"

definition sticker_b :: "unit sticker" where
  "sticker_b =
     \<lparr> state = (), id_attr = 175928847299117063, guild_id = 8, name = JStr ''dance'',
       description = JNull, pack_id = 3, format = ''gif'', image_attr = JStr ''abc'',
       type_attr = Json (JInt 2), version = JInt 4, available = JBool False,
       tags = [''x''], preview_image = JStr ''def'' \<rparr>"

text \<open>Payloads that cannot be constructed from: no name, an id that is no number.\<close>

definition missing_name_payload :: payload where
  "missing_name_payload = required_payload(''name'' := None)"

definition bad_id_payload :: payload where
  "bad_id_payload = required_payload(''id'' \<mapsto> JStr ''abc'')"

text \<open>A \<^verbatim>\<open>pack_id\<close> that is no number.\<close>

definition bad_pack_id_payload :: payload where
  "bad_pack_id_payload = required_payload(''pack_id'' \<mapsto> JStr ''zz'')"

text \<open>The stickers that the constructor makes of some of these payloads.\<close>

definition required_sticker :: "unit sticker" where
  "required_sticker =
     \<lparr> state = (), id_attr = 123, guild_id = 7, name = JStr ''n'',
       description = JStr ''d'', pack_id = 0, format = ''png'', image_attr = JStr [],
       type_attr = Member (EnumMember ''StickerType'' ''standard''), version = JInt 1,
       available = JBool True, tags = [], preview_image = JNull \<rparr>"

definition lottie_sticker :: "unit sticker" where
  "lottie_sticker = required_sticker\<lparr>format := ''lottie''\<rparr>"

definition full_sticker :: "unit sticker" where
  "full_sticker =
     required_sticker\<lparr>pack_id := 456, image_attr := JStr ''abc'',
       tags := [''a'', ''b'', ''c''], preview_image := JStr ''def''\<rparr>"

definition unknown_codes_sticker :: "unit sticker" where
  "unknown_codes_sticker =
     required_sticker\<lparr>format := ''99'', type_attr := Json (JInt 7)\<rparr>"

text \<open>A resolver to call: it returns the id, the image and the size it was given.\<close>

definition example_resolver :: "unit \<Rightarrow> unit sticker \<Rightarrow> int \<Rightarrow> int \<times> json \<times> int" where
  "example_resolver st s n = (id_attr s, image_attr s, n)"

text \<open>The keys a payload must have.\<close>

definition required_keys :: "string list" where
  "required_keys = [''id'', ''name'', ''description'', ''format_type'', ''type'',
                    ''version'', ''available'']"

section \<open>Facts about the string functions\<close>

lemma split_not_Nil: "split sep s \<noteq> []"
  by (induction s) (simp_all add: Let_def)

lemma split_length: "length (split sep s) = Suc (count_list s sep)"
  by (induction s) (simp_all add: Let_def split_not_Nil)

lemma split_no_sep: "p \<in> set (split sep s) \<Longrightarrow> sep \<notin> set p"
proof (induction s arbitrary: p)
  case Nil
  then show ?case by simp
next
  case (Cons c cs)
  obtain q qs where q: "split sep cs = q # qs"
    using split_not_Nil [of sep cs] by (cases "split sep cs") auto
  show ?case
  proof (cases "c = sep")
    case True
    with Cons show ?thesis by auto
  next
    case False
    with Cons.prems q have "p = c # q \<or> p \<in> set qs" by simp
    moreover have "sep \<notin> set q" using Cons.IH [of q] q by simp
    moreover have "p \<in> set qs \<Longrightarrow> sep \<notin> set p" using Cons.IH [of p] q by simp
    ultimately show ?thesis using False by auto
  qed
qed

lemma join_split: "join sep (split sep s) = s"
proof (induction s)
  case Nil
  then show ?case by simp
next
  case (Cons c cs)
  obtain q qs where q: "split sep cs = q # qs"
    using split_not_Nil [of sep cs] by (cases "split sep cs") auto
  show ?case
  proof (cases "c = sep")
    case True
    with Cons q show ?thesis by simp
  next
    case False
    with Cons q show ?thesis by (cases qs) simp_all
  qed
qed

lemma strip_decomp:
  "\<exists>l r. s = l @ strip s @ r \<and> (\<forall>c\<in>set l. isspace c) \<and> (\<forall>c\<in>set r. isspace c)"
proof -
  let ?l = "takeWhile isspace s"
  let ?m = "dropWhile isspace s"
  let ?r = "rev (takeWhile isspace (rev ?m))"
  have "rev ?m = takeWhile isspace (rev ?m) @ rev (strip s)"
    by (simp add: strip_def)
  then have "?m = strip s @ ?r"
    by (metis rev_append rev_rev_ident)
  then have "s = ?l @ strip s @ ?r" by (metis takeWhile_dropWhile_id)
  moreover have "\<forall>c\<in>set ?l. isspace c" by (auto dest: set_takeWhileD)
  moreover have "\<forall>c\<in>set ?r. isspace c" by (auto dest: set_takeWhileD)
  ultimately show ?thesis by blast
qed

lemma strip_prefix_drop: "\<exists>r. dropWhile isspace s = strip s @ r"
proof -
  have "rev (dropWhile isspace s) =
          takeWhile isspace (rev (dropWhile isspace s)) @ rev (strip s)"
    by (simp add: strip_def)
  then have "dropWhile isspace s =
          strip s @ rev (takeWhile isspace (rev (dropWhile isspace s)))"
    by (metis rev_append rev_rev_ident)
  then show ?thesis ..
qed

lemma strip_ends:
  assumes "strip s \<noteq> []"
  shows "\<not> isspace (hd (strip s)) \<and> \<not> isspace (last (strip s))"
proof -
  let ?m = "dropWhile isspace s"
  let ?k = "dropWhile isspace (rev ?m)"
  have k: "?k \<noteq> []" using assms by (simp add: strip_def)
  then have "\<not> isspace (hd ?k)" by (rule hd_dropWhile)
  then have l: "\<not> isspace (last (strip s))" using k by (simp add: strip_def last_rev)
  have m: "?m \<noteq> []" using k by (cases ?m) simp_all
  then have hm: "\<not> isspace (hd ?m)" by (rule hd_dropWhile)
  obtain r where "?m = strip s @ r" using strip_prefix_drop by blast
  then have "hd ?m = hd (strip s)" using assms by (metis hd_append2)
  with hm l show ?thesis by simp
qed


subsection \<open>\<^verbatim>\<open>int\<close> reads back what \<^verbatim>\<open>str\<close> writes\<close>

lemma digit_char_digit:
  assumes "d < 10"
  shows "is_digit (digit_char d)" and "digit_val (digit_char d) = d"
proof -
  from assms have "d = 0 \<or> d = 1 \<or> d = 2 \<or> d = 3 \<or> d = 4 \<or> d = 5 \<or> d = 6 \<or> d = 7
                   \<or> d = 8 \<or> d = 9"
    by arith
  then show "is_digit (digit_char d)" and "digit_val (digit_char d) = d"
    by (elim disjE; simp add: digit_char_def is_digit_def digit_val_def)+
qed

lemma is_digit_plain:
  assumes "is_digit c"
  shows "\<not> int_isspace c" and "c \<noteq> CHR ''-''" and "c \<noteq> CHR ''+''" and "c \<noteq> CHR ''_''"
  using assms by (auto simp: is_digit_def int_isspace_def Let_def)

lemma show_nat_digits: "c \<in> set (show_nat n) \<Longrightarrow> is_digit c"
proof (induction n arbitrary: c rule: show_nat.induct)
  case (1 n)
  show ?case
  proof (cases "n < 10")
    case True
    with "1.prems" show ?thesis
      by (simp add: show_nat.simps [of n] digit_char_digit)
  next
    case False
    with "1.prems" have "c \<in> set (show_nat (n div 10)) \<or> c = digit_char (n mod 10)"
      by (auto simp: show_nat.simps [of n])
    then show ?thesis
      using "1.IH" [OF False] by (auto simp: digit_char_digit)
  qed
qed

lemma show_nat_not_Nil: "show_nat n \<noteq> []"
  by (simp add: show_nat.simps [of n])

lemma scan_digits_all_digits:
  assumes "\<forall>c\<in>set ds. is_digit c" and "is_digit prev"
  shows "scan_digits prev acc ds = Some (foldl (\<lambda>a c. 10 * a + digit_val c) acc ds)"
  using assms
proof (induction ds arbitrary: prev acc)
  case Nil
  then show ?case by (simp add: is_digit_plain)
next
  case (Cons c cs)
  then show ?case by simp
qed

lemma parse_digits_all_digits:
  assumes "\<forall>c\<in>set ds. is_digit c" and "ds \<noteq> []"
  shows "parse_digits ds = Some (foldl (\<lambda>a c. 10 * a + digit_val c) 0 ds)"
proof (cases ds)
  case Nil
  with assms show ?thesis by simp
next
  case (Cons c cs)
  with assms show ?thesis
    by (simp add: parse_digits_def scan_digits_all_digits)
qed

lemma foldl_show_nat:
  "foldl (\<lambda>a c. 10 * a + digit_val c) acc (show_nat n)
   = acc * 10 ^ length (show_nat n) + n"
proof (induction n arbitrary: acc rule: show_nat.induct)
  case (1 n)
  show ?case
  proof (cases "n < 10")
    case True
    then show ?thesis by (simp add: show_nat.simps [of n] digit_char_digit)
  next
    case False
    have "n mod 10 < 10" by simp
    then have d: "digit_val (digit_char (n mod 10)) = n mod 10" by (rule digit_char_digit)
    show ?thesis
      using "1.IH" [OF False, of acc] d False
      by (simp add: show_nat.simps [of n] algebra_simps)
  qed
qed

lemma parse_digits_show_nat: "parse_digits (show_nat n) = Some n"
  using parse_digits_all_digits [of "show_nat n"] foldl_show_nat [of 0 n]
  by (simp add: show_nat_digits show_nat_not_Nil)

lemma dropWhile_hd: "xs \<noteq> [] \<Longrightarrow> \<not> P (hd xs) \<Longrightarrow> dropWhile P xs = xs"
  by (cases xs) simp_all

lemma trim_plain:
  assumes "xs \<noteq> []" and "\<not> P (hd xs)" and "\<not> P (last xs)"
  shows "rev (dropWhile P (rev (dropWhile P xs))) = xs"
proof -
  have "dropWhile P xs = xs" using assms by (simp add: dropWhile_hd)
  moreover have "dropWhile P (rev xs) = rev xs"
    using assms by (simp add: dropWhile_hd hd_rev)
  ultimately show ?thesis by simp
qed

lemma int_of_str_show_int: "int_of_str (show_int i) = Inr i"
proof (cases "i < 0")
  case True
  let ?ds = "show_nat (nat (- i))"
  have l: "is_digit (last ?ds)"
    by (rule show_nat_digits [of _ "nat (- i)"]) (simp add: show_nat_not_Nil)
  have m: "\<not> int_isspace CHR ''-''" by (simp add: int_isspace_def)
  have "rev (dropWhile int_isspace (rev (dropWhile int_isspace (CHR ''-'' # ?ds))))
        = CHR ''-'' # ?ds"
    using l m by (intro trim_plain) (simp_all add: show_nat_not_Nil is_digit_plain)
  then show ?thesis
    using True by (simp add: int_of_str_def show_int_def parse_digits_show_nat)
next
  case False
  let ?ds = "show_nat (nat i)"
  have h: "is_digit (hd ?ds)" and l: "is_digit (last ?ds)"
    by (rule show_nat_digits [of _ "nat i"], simp add: show_nat_not_Nil)+
  have "rev (dropWhile int_isspace (rev (dropWhile int_isspace ?ds))) = ?ds"
    using h l by (intro trim_plain) (simp_all add: show_nat_not_Nil is_digit_plain)
  moreover obtain c cs where c: "?ds = c # cs" using show_nat_not_Nil [of "nat i"] by (cases ?ds) auto
  moreover have "c \<noteq> CHR ''-''" "c \<noteq> CHR ''+''" using h c by (simp_all add: is_digit_plain)
  ultimately show ?thesis
    using False parse_digits_show_nat [of "nat i"]
    by (simp add: int_of_str_def show_int_def)
qed

lemma py_int_str_json: "py_int (JStr (str_json (JInt i))) = Inr i"
  by (simp add: int_of_str_show_int)


section \<open>Facts about the constructor\<close>

lemma bind_Inr_iff: "bind r f = Inr s \<longleftrightarrow> (\<exists>v. r = Inr v \<and> f v = Inr s)"
  by (cases r) (simp_all add: bind_def)

lemma bind_Inl_iff:
  "bind r f = Inl e \<longleftrightarrow> r = Inl e \<or> (\<exists>v. r = Inr v \<and> f v = Inl e)"
  by (cases r) (simp_all add: bind_def)

lemma getitem_Inr_iff: "getitem p k = Inr v \<longleftrightarrow> p k = Some v"
  by (simp add: getitem_def split: option.splits)

lemma getitem_Inl_iff: "getitem p k = Inl e \<longleftrightarrow> p k = None \<and> e = KeyError k"
  by (auto simp: getitem_def split: option.splits)

lemma except_KeyError_getitem: "except_KeyError (getitem p k) d = Inr (get p k d)"
  by (simp add: except_KeyError_def getitem_def get_def split: option.splits)

lemma split_method_Inr_iff: "split_method t sep = Inr ps \<longleftrightarrow> (\<exists>x. t = JStr x \<and> ps = split sep x)"
  by (cases t) auto

lemma split_method_Inl_iff:
  "split_method t sep = Inl e \<longleftrightarrow> (\<forall>x. t \<noteq> JStr x) \<and> e = AttributeError"
  by (cases t) auto

lemma tags_Inr_iff:
  "except_KeyError
     (bind (getitem p ''tags'') (\<lambda>t.
      bind (split_method t sep) (\<lambda>ps. Inr (map strip ps)))) [] = Inr tgs \<longleftrightarrow>
   (case p ''tags'' of None \<Rightarrow> tgs = []
    | Some t \<Rightarrow> (\<exists>x. t = JStr x \<and> tgs = map strip (split sep x)))"
proof (cases "p ''tags''")
  case None
  then show ?thesis by (auto simp: except_KeyError_def bind_def getitem_def)
next
  case (Some t)
  then show ?thesis
    by (cases t) (auto simp: except_KeyError_def bind_def getitem_def)
qed

lemma tags_Inl_iff:
  "except_KeyError
     (bind (getitem p ''tags'') (\<lambda>t.
      bind (split_method t sep) (\<lambda>ps. Inr (map strip ps)))) [] = Inl e \<longleftrightarrow>
   (\<exists>t. p ''tags'' = Some t \<and> (\<forall>x. t \<noteq> JStr x)) \<and> e = AttributeError"
proof (cases "p ''tags''")
  case None
  then show ?thesis by (auto simp: except_KeyError_def bind_def getitem_def)
next
  case (Some t)
  then show ?thesis
    by (cases t) (auto simp: except_KeyError_def bind_def getitem_def)
qed

lemma from_data_Inr_iff:
  "from_data E gid st p = Inr s \<longleftrightarrow>
     (\<exists>v_id i nm ds pk ft ty ver av tgs.
        p ''id'' = Some v_id \<and> py_int v_id = Inr i \<and>
        p ''name'' = Some nm \<and> p ''description'' = Some ds \<and>
        py_int (get p ''pack_id'' (JInt 0)) = Inr pk \<and>
        p ''format_type'' = Some ft \<and> p ''type'' = Some ty \<and>
        p ''version'' = Some ver \<and> p ''available'' = Some av \<and>
        (case p ''tags'' of None \<Rightarrow> tgs = []
         | Some t \<Rightarrow> (\<exists>x. t = JStr x \<and> tgs = map strip (split CHR '','' x))) \<and>
        s = \<lparr> state = st, id_attr = i, guild_id = gid, name = nm, description = ds,
              pack_id = pk,
              format = str_val E (try_enum (StickerFormatType E) ft),
              image_attr = get p ''asset'' (JStr []),
              type_attr = try_enum (StickerType E) ty,
              version = ver, available = av, tags = tgs,
              preview_image = get p ''preview_asset'' JNull \<rparr>)"
proof
  assume "from_data E gid st p = Inr s"
  then show "\<exists>v_id i nm ds pk ft ty ver av tgs.
        p ''id'' = Some v_id \<and> py_int v_id = Inr i \<and>
        p ''name'' = Some nm \<and> p ''description'' = Some ds \<and>
        py_int (get p ''pack_id'' (JInt 0)) = Inr pk \<and>
        p ''format_type'' = Some ft \<and> p ''type'' = Some ty \<and>
        p ''version'' = Some ver \<and> p ''available'' = Some av \<and>
        (case p ''tags'' of None \<Rightarrow> tgs = []
         | Some t \<Rightarrow> (\<exists>x. t = JStr x \<and> tgs = map strip (split CHR '','' x))) \<and>
        s = \<lparr> state = st, id_attr = i, guild_id = gid, name = nm, description = ds,
              pack_id = pk,
              format = str_val E (try_enum (StickerFormatType E) ft),
              image_attr = get p ''asset'' (JStr []),
              type_attr = try_enum (StickerType E) ty,
              version = ver, available = av, tags = tgs,
              preview_image = get p ''preview_asset'' JNull \<rparr>"
    unfolding from_data_def
    apply (simp only: bind_Inr_iff getitem_Inr_iff except_KeyError_getitem tags_Inr_iff sum.inject)
    apply (elim exE conjE)
    apply (intro exI conjI)
    apply (assumption | rule sym, assumption)+
    apply hypsubst
    apply (rule refl)
    done
next
  assume "\<exists>v_id i nm ds pk ft ty ver av tgs.
        p ''id'' = Some v_id \<and> py_int v_id = Inr i \<and>
        p ''name'' = Some nm \<and> p ''description'' = Some ds \<and>
        py_int (get p ''pack_id'' (JInt 0)) = Inr pk \<and>
        p ''format_type'' = Some ft \<and> p ''type'' = Some ty \<and>
        p ''version'' = Some ver \<and> p ''available'' = Some av \<and>
        (case p ''tags'' of None \<Rightarrow> tgs = []
         | Some t \<Rightarrow> (\<exists>x. t = JStr x \<and> tgs = map strip (split CHR '','' x))) \<and>
        s = \<lparr> state = st, id_attr = i, guild_id = gid, name = nm, description = ds,
              pack_id = pk,
              format = str_val E (try_enum (StickerFormatType E) ft),
              image_attr = get p ''asset'' (JStr []),
              type_attr = try_enum (StickerType E) ty,
              version = ver, available = av, tags = tgs,
              preview_image = get p ''preview_asset'' JNull \<rparr>"
  then obtain v_id i nm ds pk ft ty ver av tgs where
    h: "p ''id'' = Some v_id" "py_int v_id = Inr i"
       "p ''name'' = Some nm" "p ''description'' = Some ds"
       "py_int (get p ''pack_id'' (JInt 0)) = Inr pk"
       "p ''format_type'' = Some ft" "p ''type'' = Some ty"
       "p ''version'' = Some ver" "p ''available'' = Some av"
       "case p ''tags'' of None \<Rightarrow> tgs = []
         | Some t \<Rightarrow> (\<exists>x. t = JStr x \<and> tgs = map strip (split CHR '','' x))"
       and s: "s = \<lparr> state = st, id_attr = i, guild_id = gid, name = nm, description = ds,
              pack_id = pk,
              format = str_val E (try_enum (StickerFormatType E) ft),
              image_attr = get p ''asset'' (JStr []),
              type_attr = try_enum (StickerType E) ty,
              version = ver, available = av, tags = tgs,
              preview_image = get p ''preview_asset'' JNull \<rparr>"
    by (elim exE conjE)
  have g: "getitem p ''id'' = Inr v_id" "getitem p ''name'' = Inr nm"
    "getitem p ''description'' = Inr ds" "getitem p ''format_type'' = Inr ft"
    "getitem p ''type'' = Inr ty" "getitem p ''version'' = Inr ver"
    "getitem p ''available'' = Inr av"
    using h by (simp_all add: getitem_Inr_iff)
  have t: "except_KeyError
     (bind (getitem p ''tags'') (\<lambda>t.
      bind (split_method t CHR '','') (\<lambda>ps. Inr (map strip ps)))) [] = Inr tgs"
    using h(10) by (simp only: tags_Inr_iff)
  have b: "\<And>v f. bind (Inr v) f = f v" by (simp add: bind_def)
  show "from_data E gid st p = Inr s"
    unfolding from_data_def
    by (simp only: g h(2) h(5) t b except_KeyError_getitem s)
qed


lemma from_data_succeeds_iff:
  "(\<exists>s. from_data E gid st p = Inr s) \<longleftrightarrow>
     (\<forall>k\<in>set required_keys. p k \<noteq> None) \<and>
     (\<exists>v i. p ''id'' = Some v \<and> py_int v = Inr i) \<and>
     (\<forall>v. p ''pack_id'' = Some v \<longrightarrow> (\<exists>n. py_int v = Inr n)) \<and>
     (\<forall>v. p ''tags'' = Some v \<longrightarrow> (\<exists>t. v = JStr t))"
  (is "?L \<longleftrightarrow> ?R")
proof
  assume ?L
  then obtain s where "from_data E gid st p = Inr s" ..
  then obtain v_id i nm ds pk ft ty ver av tgs where
    h: "p ''id'' = Some v_id" "py_int v_id = Inr i"
       "p ''name'' = Some nm" "p ''description'' = Some ds"
       "py_int (get p ''pack_id'' (JInt 0)) = Inr pk"
       "p ''format_type'' = Some ft" "p ''type'' = Some ty"
       "p ''version'' = Some ver" "p ''available'' = Some av"
       "case p ''tags'' of None \<Rightarrow> tgs = []
         | Some t \<Rightarrow> (\<exists>x. t = JStr x \<and> tgs = map strip (split CHR '','' x))"
    unfolding from_data_Inr_iff by (elim exE conjE)
  have "\<forall>k\<in>set required_keys. p k \<noteq> None"
    using h by (simp add: required_keys_def)
  moreover have "\<exists>v i. p ''id'' = Some v \<and> py_int v = Inr i"
    using h by blast
  moreover have "\<forall>v. p ''pack_id'' = Some v \<longrightarrow> (\<exists>n. py_int v = Inr n)"
    using h(5) by (auto simp: get_def)
  moreover have "\<forall>v. p ''tags'' = Some v \<longrightarrow> (\<exists>t. v = JStr t)"
    using h(10) by auto
  ultimately show ?R by blast
next
  assume r: ?R
  then obtain v i where id: "p ''id'' = Some v" "py_int v = Inr i" by blast
  from r have req: "\<forall>k\<in>set required_keys. p k \<noteq> None" by blast
  then obtain nm ds ft ty ver av where
    k: "p ''name'' = Some nm" "p ''description'' = Some ds"
       "p ''format_type'' = Some ft" "p ''type'' = Some ty"
       "p ''version'' = Some ver" "p ''available'' = Some av"
    by (auto simp: required_keys_def)
  have "\<exists>pk. py_int (get p ''pack_id'' (JInt 0)) = Inr pk"
    using r by (cases "p ''pack_id''") (auto simp: get_def)
  then obtain pk where pk: "py_int (get p ''pack_id'' (JInt 0)) = Inr pk" ..
  have "\<exists>tgs. case p ''tags'' of None \<Rightarrow> tgs = []
         | Some t \<Rightarrow> (\<exists>x. t = JStr x \<and> tgs = map strip (split CHR '','' x))"
    using r by (cases "p ''tags''") auto
  then obtain tgs where
    t: "case p ''tags'' of None \<Rightarrow> tgs = []
         | Some t \<Rightarrow> (\<exists>x. t = JStr x \<and> tgs = map strip (split CHR '','' x))" ..
  show ?L
    unfolding from_data_Inr_iff using id k pk t by blast
qed

lemma py_int_error: "py_int v = Inl e \<Longrightarrow> e = TypeError \<and> v = JNull \<or> e = ValueError \<and> (\<exists>t. v = JStr t)"
  by (cases v) (auto simp: int_of_str_def Let_def split: prod.splits option.splits)


lemma from_data_Inl_cases:
  assumes "from_data E gid st p = Inl e"
  shows "(\<exists>k\<in>set required_keys. p k = None \<and> e = KeyError k)
       \<or> (\<exists>v. p ''id'' = Some v \<and> py_int v = Inl e)
       \<or> (\<exists>v. p ''pack_id'' = Some v \<and> py_int v = Inl e)
       \<or> (\<exists>v. p ''tags'' = Some v \<and> (\<forall>t. v \<noteq> JStr t) \<and> e = AttributeError)"
proof -
  have pk: "py_int (get p ''pack_id'' (JInt 0)) = Inl e \<Longrightarrow>
            \<exists>v. p ''pack_id'' = Some v \<and> py_int v = Inl e"
    by (cases "p ''pack_id''") (simp_all add: get_def)
  from assms show ?thesis
    unfolding from_data_def
    apply (simp only: bind_Inl_iff getitem_Inr_iff getitem_Inl_iff except_KeyError_getitem
        tags_Inl_iff sum.inject sum.distinct simp_thms)
    apply (elim disjE exE conjE)
    apply (simp_all add: required_keys_def)
    apply (auto dest: pk)
    done
qed


lemma isl_py_int: "isl (py_int v) \<longleftrightarrow> \<not> (\<exists>n. py_int v = Inr n)"
  by (cases "py_int v") simp_all

lemma isl_from_data: "isl (from_data E gid st p) \<longleftrightarrow> \<not> (\<exists>s. from_data E gid st p = Inr s)"
  by (cases "from_data E gid st p") simp_all

lemma from_data_isl_iff:
  "isl (from_data E gid st p) \<longleftrightarrow>
      (\<exists>k\<in>set required_keys. p k = None)
      \<or> (\<exists>v. p ''id'' = Some v \<and> isl (py_int v))
      \<or> (\<exists>v. p ''pack_id'' = Some v \<and> isl (py_int v))
      \<or> (\<exists>v. p ''tags'' = Some v \<and> (\<forall>t. v \<noteq> JStr t))"
  (is "?L \<longleftrightarrow> ?A \<or> ?B \<or> ?C \<or> ?D")
proof -
  have nA: "\<not> (\<forall>k\<in>set required_keys. p k \<noteq> None) \<longleftrightarrow> ?A"
    by simp
  have nB: "\<not> (\<exists>v i. p ''id'' = Some v \<and> py_int v = Inr i) \<longleftrightarrow> p ''id'' = None \<or> ?B"
    by (cases "p ''id''") (simp_all add: isl_py_int)
  have nC: "\<not> (\<forall>v. p ''pack_id'' = Some v \<longrightarrow> (\<exists>n. py_int v = Inr n)) \<longleftrightarrow> ?C"
    by (simp add: isl_py_int)
  have nD: "\<not> (\<forall>v. p ''tags'' = Some v \<longrightarrow> (\<exists>t. v = JStr t)) \<longleftrightarrow> ?D"
    by simp
  have c: "p ''id'' = None \<Longrightarrow> ?A"
    by (simp add: required_keys_def)
  have "?L \<longleftrightarrow> ?A \<or> (p ''id'' = None \<or> ?B) \<or> ?C \<or> ?D"
    unfolding isl_from_data from_data_succeeds_iff de_Morgan_conj
    by (simp only: nA nB nC nD)
  also have "\<dots> \<longleftrightarrow> ?A \<or> ?B \<or> ?C \<or> ?D"
  proof (cases "p ''id''")
    case None
    then have ?A by (rule c)
    then show ?thesis by simp
  next
    case (Some a)
    then show ?thesis by simp
  qed
  finally show ?thesis .
qed


lemmas eval_defs = from_data_def required_payload_def bind_def
      getitem_def get_def except_KeyError_def int_of_str_def parse_digits_def
      is_digit_def digit_val_def int_isspace_def isspace_def strip_def try_enum_def example_enums_def

lemma from_data_state: "from_data E gid st p = Inr s \<Longrightarrow> state s = st"
  unfolding from_data_Inr_iff by (elim exE conjE) simp

lemma from_data_fields:
  assumes "from_data E gid st p = Inr s"
  shows "py_int (get p ''pack_id'' (JInt 0)) = Inr (pack_id s)"
    and "image_attr s = get p ''asset'' (JStr [])"
    and "preview_image s = get p ''preview_asset'' JNull"
    and "case p ''tags'' of None \<Rightarrow> tags s = []
         | Some t \<Rightarrow> (\<exists>x. t = JStr x \<and> tags s = map strip (split CHR '','' x))"
    and "\<exists>ft. p ''format_type'' = Some ft
              \<and> format s = str_val E (try_enum (StickerFormatType E) ft)"
    and "\<exists>ty. p ''type'' = Some ty \<and> type_attr s = try_enum (StickerType E) ty"
    and "\<exists>v. p ''id'' = Some v \<and> py_int v = Inr (id_attr s)"
    and "guild_id s = gid"
proof -
  from assms obtain v_id i nm ds pk ft ty ver av tgs where
    h: "p ''id'' = Some v_id" "py_int v_id = Inr i"
       "py_int (get p ''pack_id'' (JInt 0)) = Inr pk"
       "p ''format_type'' = Some ft" "p ''type'' = Some ty"
       "case p ''tags'' of None \<Rightarrow> tgs = []
         | Some t \<Rightarrow> (\<exists>x. t = JStr x \<and> tgs = map strip (split CHR '','' x))"
    and s: "s = \<lparr> state = st, id_attr = i, guild_id = gid, name = nm, description = ds,
              pack_id = pk,
              format = str_val E (try_enum (StickerFormatType E) ft),
              image_attr = get p ''asset'' (JStr []),
              type_attr = try_enum (StickerType E) ty,
              version = ver, available = av, tags = tgs,
              preview_image = get p ''preview_asset'' JNull \<rparr>"
    unfolding from_data_Inr_iff by (elim exE conjE)
  show "py_int (get p ''pack_id'' (JInt 0)) = Inr (pack_id s)" using h(3) s by simp
  show "image_attr s = get p ''asset'' (JStr [])" using s by simp
  show "preview_image s = get p ''preview_asset'' JNull" using s by simp
  show "case p ''tags'' of None \<Rightarrow> tags s = []
         | Some t \<Rightarrow> (\<exists>x. t = JStr x \<and> tags s = map strip (split CHR '','' x))"
    using h(6) s by (cases "p ''tags''") simp_all
  show "\<exists>ft. p ''format_type'' = Some ft
              \<and> format s = str_val E (try_enum (StickerFormatType E) ft)"
    using h(4) s by simp
  show "\<exists>ty. p ''type'' = Some ty \<and> type_attr s = try_enum (StickerType E) ty"
    using h(5) s by simp
  show "\<exists>v. p ''id'' = Some v \<and> py_int v = Inr (id_attr s)"
    using h(1,2) s by simp
  show "guild_id s = gid" using s by simp
qed

lemma concat_map_guarded:
  "concat (map (\<lambda>x. if P x then (let v = f x in if Q v then [(x, v)] else []) else []) xs)
   = filter (\<lambda>(x, v). Q v) (map (\<lambda>x. (x, f x)) (filter P xs))"
  by (induction xs) (simp_all add: Let_def)

lemma public_slots:
  "filter (\<lambda>attr. hd attr \<noteq> CHR ''_'') slots =
     [''id'', ''guild_id'', ''name'', ''description'', ''pack_id'', ''format'', ''image'',
      ''type'', ''version'', ''available'', ''tags'', ''preview_image'']"
  by (simp add: slots_def)

section \<open>Equality and hash\<close>

text \<open>
  C3: \<open>eq a b\<close> holds exactly when \<open>b\<close> is a sticker whose id is the id of \<open>a\<close>,
  whatever the other fields are; the hash is the id shifted right by 22 bits, that is
  the id divided by \<open>2 ^ 22\<close> rounding down; and equal stickers have equal hashes.
\<close>

theorem eq_hash_by_id:
  "(eq a other \<longleftrightarrow> (\<exists>b. other = StickerObj b \<and> id_attr a = id_attr b))
   \<and> hash a = id_attr a div 2 ^ 22
   \<and> (eq a (StickerObj b) \<longrightarrow> hash a = hash b)"
  by (cases other) (simp_all add: hash_def drop_bit_eq_div)

theorem eq_hash_by_id_witness:
  "eq sticker_a (StickerObj sticker_b) \<and> hash sticker_a = hash sticker_b
   \<and> hash sticker_a = 41944705796 \<and> name sticker_a \<noteq> name sticker_b
   \<and> \<not> eq sticker_a (OtherObj (Json (JInt 175928847299117063)))"
  using eq_hash_by_id [of sticker_a "StickerObj sticker_b" sticker_b]
  by (simp add: sticker_a_def sticker_b_def)

section \<open>When construction fails\<close>

text \<open>
  C6, as the code has it: construction fails exactly when a required key is absent, or
  \<^verbatim>\<open>int\<close> rejects the value of \<^verbatim>\<open>id\<close> or of a present \<^verbatim>\<open>pack_id\<close>, or \<^verbatim>\<open>tags\<close> is
  present and is not a string. The error is then a \<open>KeyError\<close> naming an absent
  required key, or the \<open>ValueError\<close> (a string that is no integer) or \<open>TypeError\<close>
  (\<^verbatim>\<open>null\<close>) of \<^verbatim>\<open>int\<close>, or the \<open>AttributeError\<close> of the missing \<^verbatim>\<open>split\<close>; the result
  is the error alone, with no sticker.
\<close>

theorem construction_fails_iff:
  "(isl (from_data E gid st p) \<longleftrightarrow>
      (\<exists>k\<in>set required_keys. p k = None)
      \<or> (\<exists>v. p ''id'' = Some v \<and> isl (py_int v))
      \<or> (\<exists>v. p ''pack_id'' = Some v \<and> isl (py_int v))
      \<or> (\<exists>v. p ''tags'' = Some v \<and> (\<forall>t. v \<noteq> JStr t)))
   \<and> (\<forall>e. from_data E gid st p = Inl e \<longrightarrow>
         (\<exists>k\<in>set required_keys. p k = None \<and> e = KeyError k)
         \<or> (\<exists>v. (p ''id'' = Some v \<or> p ''pack_id'' = Some v) \<and> py_int v = Inl e
                \<and> (e = ValueError \<and> (\<exists>t. v = JStr t) \<or> e = TypeError \<and> v = JNull))
         \<or> (\<exists>v. p ''tags'' = Some v \<and> (\<forall>t. v \<noteq> JStr t) \<and> e = AttributeError))"
proof (intro conjI allI impI)
  show "isl (from_data E gid st p) \<longleftrightarrow>
      (\<exists>k\<in>set required_keys. p k = None)
      \<or> (\<exists>v. p ''id'' = Some v \<and> isl (py_int v))
      \<or> (\<exists>v. p ''pack_id'' = Some v \<and> isl (py_int v))
      \<or> (\<exists>v. p ''tags'' = Some v \<and> (\<forall>t. v \<noteq> JStr t))"
    by (rule from_data_isl_iff)
next
  fix e
  assume "from_data E gid st p = Inl e"
  then consider
      (key) "\<exists>k\<in>set required_keys. p k = None \<and> e = KeyError k"
    | (ident) v where "p ''id'' = Some v" "py_int v = Inl e"
    | (pack) v where "p ''pack_id'' = Some v" "py_int v = Inl e"
    | (tags) "\<exists>v. p ''tags'' = Some v \<and> (\<forall>t. v \<noteq> JStr t) \<and> e = AttributeError"
    using from_data_Inl_cases [of E gid st p e] by blast
  then show "(\<exists>k\<in>set required_keys. p k = None \<and> e = KeyError k)
         \<or> (\<exists>v. (p ''id'' = Some v \<or> p ''pack_id'' = Some v) \<and> py_int v = Inl e
                \<and> (e = ValueError \<and> (\<exists>t. v = JStr t) \<or> e = TypeError \<and> v = JNull))
         \<or> (\<exists>v. p ''tags'' = Some v \<and> (\<forall>t. v \<noteq> JStr t) \<and> e = AttributeError)"
  proof cases
    case key
    then show ?thesis by (rule disjI1)
  next
    case ident
    from py_int_error [OF ident(2)] ident show ?thesis
      by - (rule disjI2, rule disjI1, rule exI [of _ v], auto)
  next
    case pack
    from py_int_error [OF pack(2)] pack show ?thesis
      by - (rule disjI2, rule disjI1, rule exI [of _ v], auto)
  next
    case tags
    then show ?thesis by (intro disjI2)
  qed
qed

theorem construction_fails_iff_witness:
  "from_data example_enums 7 () missing_name_payload = Inl (KeyError ''name'')
   \<and> from_data example_enums 7 () bad_id_payload = Inl ValueError
   \<and> (\<exists>k\<in>set required_keys. missing_name_payload k = None)
   \<and> (\<exists>v. bad_id_payload ''id'' = Some v \<and> isl (py_int v))"
proof -
  have a: "from_data example_enums 7 () missing_name_payload = Inl (KeyError ''name'')"
    by (simp add: from_data_def missing_name_payload_def required_payload_def bind_def
        getitem_def get_def except_KeyError_def int_of_str_def parse_digits_def
        is_digit_def digit_val_def int_isspace_def)
  have b: "from_data example_enums 7 () bad_id_payload = Inl ValueError"
    by (simp add: from_data_def bad_id_payload_def required_payload_def bind_def
        getitem_def get_def except_KeyError_def int_of_str_def parse_digits_def
        is_digit_def digit_val_def int_isspace_def)
  from a have "isl (from_data example_enums 7 () missing_name_payload)" by simp
  with construction_fails_iff [of example_enums 7 "()" missing_name_payload]
  have c: "(\<exists>k\<in>set required_keys. missing_name_payload k = None)"
    by (simp add: missing_name_payload_def required_payload_def isl_py_int
        int_of_str_def parse_digits_def is_digit_def digit_val_def int_isspace_def)
  from b have "isl (from_data example_enums 7 () bad_id_payload)" by simp
  with construction_fails_iff [of example_enums 7 "()" bad_id_payload]
  have d: "(\<exists>v. bad_id_payload ''id'' = Some v \<and> isl (py_int v))"
    by (simp add: bad_id_payload_def required_payload_def required_keys_def)
  from a b c d show ?thesis by simp
qed

text \<open>
  C6 as stated fails: with every required key there, \<^verbatim>\<open>id\<close> numeric and no
  \<^verbatim>\<open>pack_id\<close>, a \<^verbatim>\<open>tags\<close> that is \<^verbatim>\<open>null\<close> makes construction fail, in
  \<^verbatim>\<open>sticker['tags'].split\<close>.
\<close>

theorem construction_fails_counterexample:
  "from_data example_enums 7 () null_tags_payload = Inl AttributeError
   \<and> null_tags_payload ''id'' = Some (JStr ''123'') \<and> py_int (JStr ''123'') = Inr 123
   \<and> null_tags_payload ''name'' \<noteq> None \<and> null_tags_payload ''description'' \<noteq> None
   \<and> null_tags_payload ''format_type'' \<noteq> None \<and> null_tags_payload ''type'' \<noteq> None
   \<and> null_tags_payload ''version'' \<noteq> None \<and> null_tags_payload ''available'' \<noteq> None
   \<and> null_tags_payload ''pack_id'' = None"
  by (simp add: from_data_def null_tags_payload_def required_payload_def bind_def
      getitem_def get_def except_KeyError_def int_of_str_def parse_digits_def
      is_digit_def digit_val_def int_isspace_def)


section \<open>The image URL of a lottie sticker\<close>

text \<open>
  C1 (a defect of the code): the constructor stores \<^verbatim>\<open>format\<close> as a string, the result
  of \<^verbatim>\<open>str(...)\<close>, and \<^verbatim>\<open>image_url_as\<close> tests it with \<^verbatim>\<open>is\<close> against the member
  \<^verbatim>\<open>StickerType.lottie\<close>, which no string is. So for every constructed sticker and
  every size the call is passed on to the resolver, with the state, the sticker and
  the size (1024 when none is given), and the result is never \<^verbatim>\<open>None\<close>: also for a
  sticker whose format is lottie.
\<close>

theorem image_url_as_never_absent:
  assumes "from_data E gid st p = Inr s"
  shows "image_url_as E R s size_arg
         = Some (R st s (case size_arg of None \<Rightarrow> 1024 | Some n \<Rightarrow> n))"
  using from_data_state [OF assms] by (simp add: image_url_as_def)

theorem image_url_as_never_absent_witness:
  "from_data example_enums 7 () lottie_payload = Inr lottie_sticker
   \<and> format lottie_sticker = ''lottie''
   \<and> image_url_as example_enums example_resolver lottie_sticker (Some 64)
       = Some (123, JStr [], 64)"
proof -
  have a: "from_data example_enums 7 () lottie_payload = Inr lottie_sticker"
    by (simp add: eval_defs lottie_payload_def lottie_sticker_def required_sticker_def)
  from image_url_as_never_absent [OF a, where R = example_resolver and size_arg = "Some 64"] a
  show ?thesis
    by (simp add: example_resolver_def lottie_sticker_def required_sticker_def)
qed


section \<open>String conversion\<close>

text \<open>
  C2: \<open>to_str\<close> is \<^verbatim>\<open><a:NAME:ID>\<close> exactly when the format is one of apng, lottie
  and gif, and \<^verbatim>\<open><:NAME:ID>\<close> for every other format; two stickers with the same
  format, name and id have the same string.
\<close>

theorem to_str_by_format:
  "to_str s =
     (if format s \<in> {''apng'', ''lottie'', ''gif''}
      then ''<a:'' @ str_json (name s) @ '':'' @ show_int (id_attr s) @ ''>''
      else ''<:'' @ str_json (name s) @ '':'' @ show_int (id_attr s) @ ''>'')
   \<and> (format s = format s' \<and> name s = name s' \<and> id_attr s = id_attr s'
        \<longrightarrow> to_str s = to_str s')"
  by (simp add: to_str_def)

theorem to_str_by_format_witness:
  "to_str lottie_sticker = ''<a:n:123>'' \<and> to_str required_sticker = ''<:n:123>''
   \<and> to_str (lottie_sticker\<lparr>description := JNull, tags := [''x'']\<rparr>) = to_str lottie_sticker"
proof -
  let ?other = "lottie_sticker\<lparr>description := JNull, tags := [''x'']\<rparr>"
  have n: "show_int 123 = ''123''"
    by (simp add: show_int_def show_nat.simps digit_char_def)
  have "to_str lottie_sticker = ''<a:n:123>''"
    using to_str_by_format [of lottie_sticker lottie_sticker] n
    by (simp add: lottie_sticker_def required_sticker_def)
  moreover have "to_str required_sticker = ''<:n:123>''"
    using to_str_by_format [of required_sticker required_sticker] n
    by (simp add: required_sticker_def)
  moreover have "to_str ?other = to_str lottie_sticker"
    using to_str_by_format [of ?other lottie_sticker, THEN conjunct2] by simp
  ultimately show ?thesis by simp
qed


section \<open>The default size\<close>

text \<open>
  C9: \<open>image_url\<close>, which gives no size, is \<open>image_url_as\<close> with the size 1024.
\<close>

theorem image_url_default_size:
  "image_url E R s = image_url_as E R s (Some 1024)"
  by (simp add: image_url_def image_url_as_def)


section \<open>The tags\<close>

text \<open>
  C4: when construction succeeds, \<open>tags\<close> is the empty list if the payload has no
  \<^verbatim>\<open>tags\<close> key; if the key holds a string, \<open>tags\<close> is the list of its pieces between
  the commas, each stripped of surrounding whitespace, in order and with the empty
  pieces kept, so there is one tag more than there are commas. By \<open>join_split\<close> and
  \<open>split_no_sep\<close> the pieces are the comma-free stretches of the string, and by
  \<open>strip_decomp\<close> and \<open>strip_ends\<close> stripping removes whitespace at the two ends only.
\<close>

theorem tags_split_strip:
  assumes "from_data E gid st p = Inr s"
  shows "(p ''tags'' = None \<longrightarrow> tags s = [])
       \<and> (\<forall>t. p ''tags'' = Some (JStr t) \<longrightarrow>
              tags s = map strip (split CHR '','' t)
              \<and> length (tags s) = Suc (count_list t CHR '',''))"
  using from_data_fields(4) [OF assms] by (auto simp: split_length)

theorem tags_split_strip_witness:
  "from_data example_enums 7 () full_payload = Inr full_sticker
   \<and> full_payload ''tags'' = Some (JStr ''a, b ,c'')
   \<and> tags full_sticker = [''a'', ''b'', ''c'']
   \<and> from_data example_enums 7 () required_payload = Inr required_sticker
   \<and> required_payload ''tags'' = None \<and> tags required_sticker = []
   \<and> (\<exists>s. from_data example_enums 7 () gap_tags_payload = Inr s
          \<and> tags s = [''a'', [], ''b''])"
proof -
  have a: "from_data example_enums 7 () full_payload = Inr full_sticker"
    by (simp add: eval_defs full_payload_def full_sticker_def required_sticker_def)
  have b: "from_data example_enums 7 () required_payload = Inr required_sticker"
    by (simp add: eval_defs required_sticker_def)
  have c: "from_data example_enums 7 () gap_tags_payload
           = Inr (required_sticker\<lparr>tags := [''a'', [], ''b'']\<rparr>)"
    by (simp add: eval_defs gap_tags_payload_def required_sticker_def)
  have ta: "full_payload ''tags'' = Some (JStr ''a, b ,c'')"
    by (simp add: full_payload_def)
  have tb: "required_payload ''tags'' = None"
    by (simp add: required_payload_def)
  have tc: "gap_tags_payload ''tags'' = Some (JStr ''a,,b'')"
    by (simp add: gap_tags_payload_def)
  have "tags full_sticker = [''a'', ''b'', ''c'']"
    using tags_split_strip [OF a] ta by (simp add: strip_def isspace_def)
  moreover have "tags required_sticker = []"
    using tags_split_strip [OF b] tb by simp
  moreover have "tags (required_sticker\<lparr>tags := [''a'', [], ''b'']\<rparr>) = [''a'', [], ''b'']"
    using tags_split_strip [OF c] tc by (simp add: strip_def isspace_def)
  ultimately show ?thesis using a b c ta tb by simp
qed


text \<open>
  C10: a \<^verbatim>\<open>tags\<close> key that holds the empty string gives the one-element list of the
  empty string, and \<open>tags\<close> is the empty list only when the key is absent.
\<close>

theorem empty_tags_string:
  assumes "from_data E gid st p = Inr s"
  shows "(p ''tags'' = Some (JStr []) \<longrightarrow> tags s = [[]])
       \<and> (tags s = [] \<longleftrightarrow> p ''tags'' = None)"
  using from_data_fields(4) [OF assms]
  by (auto simp: strip_def split_not_Nil split: option.splits)

theorem empty_tags_string_witness:
  "(\<exists>s. from_data example_enums 7 () empty_tags_payload = Inr s \<and> tags s = [[]])
   \<and> empty_tags_payload ''tags'' = Some (JStr [])"
proof -
  have a: "from_data example_enums 7 () empty_tags_payload
           = Inr (required_sticker\<lparr>tags := [[]]\<rparr>)"
    by (simp add: eval_defs empty_tags_payload_def required_sticker_def)
  have t: "empty_tags_payload ''tags'' = Some (JStr [])"
    by (simp add: empty_tags_payload_def)
  from empty_tags_string [OF a] t a show ?thesis by simp
qed


section \<open>The optional keys\<close>

text \<open>
  C5, as the code has it: for a payload that has every required key, an \<^verbatim>\<open>id\<close> that
  \<^verbatim>\<open>int\<close> accepts, and whose \<^verbatim>\<open>pack_id\<close> and \<^verbatim>\<open>tags\<close>, where present, are a value
  that \<^verbatim>\<open>int\<close> accepts and a string, construction succeeds whether or not the
  optional keys are there: \<open>pack_id\<close> is 0 without the key and the integer of its
  value with it, \<open>image\<close> is the empty string without \<^verbatim>\<open>asset\<close> and its value with
  it, and \<open>preview_image\<close> is \<^verbatim>\<open>None\<close> without \<^verbatim>\<open>preview_asset\<close> and its value with
  it.
\<close>

theorem optional_fields_default:
  assumes req: "\<forall>k\<in>set required_keys. p k \<noteq> None"
    and ident: "p ''id'' = Some v" "py_int v = Inr i"
    and pack: "\<forall>w. p ''pack_id'' = Some w \<longrightarrow> (\<exists>n. py_int w = Inr n)"
    and tg: "\<forall>w. p ''tags'' = Some w \<longrightarrow> (\<exists>t. w = JStr t)"
  shows "\<exists>s. from_data E gid st p = Inr s
           \<and> (case p ''pack_id'' of None \<Rightarrow> pack_id s = 0
               | Some w \<Rightarrow> py_int w = Inr (pack_id s))
           \<and> image_attr s = (case p ''asset'' of None \<Rightarrow> JStr [] | Some a \<Rightarrow> a)
           \<and> preview_image s = (case p ''preview_asset'' of None \<Rightarrow> JNull | Some a \<Rightarrow> a)"
proof -
  have "\<exists>s. from_data E gid st p = Inr s"
    unfolding from_data_succeeds_iff using req ident pack tg by blast
  then obtain s where s: "from_data E gid st p = Inr s" ..
  have "case p ''pack_id'' of None \<Rightarrow> pack_id s = 0 | Some w \<Rightarrow> py_int w = Inr (pack_id s)"
    using from_data_fields(1) [OF s] by (cases "p ''pack_id''") (simp_all add: get_def)
  moreover have "image_attr s = (case p ''asset'' of None \<Rightarrow> JStr [] | Some a \<Rightarrow> a)"
    using from_data_fields(2) [OF s] by (simp add: get_def)
  moreover have "preview_image s = (case p ''preview_asset'' of None \<Rightarrow> JNull | Some a \<Rightarrow> a)"
    using from_data_fields(3) [OF s] by (simp add: get_def)
  ultimately show ?thesis using s by blast
qed

theorem optional_fields_default_witness:
  "from_data example_enums 7 () required_payload = Inr required_sticker
   \<and> pack_id required_sticker = 0 \<and> image_attr required_sticker = JStr []
   \<and> preview_image required_sticker = JNull
   \<and> (\<exists>s. from_data example_enums 7 () full_payload = Inr s
          \<and> pack_id s = 456 \<and> image_attr s = JStr ''abc''
          \<and> preview_image s = JStr ''def'')"
proof -
  have r: "\<forall>k\<in>set required_keys. required_payload k \<noteq> None"
    by (simp add: required_keys_def required_payload_def)
  have f: "\<forall>k\<in>set required_keys. full_payload k \<noteq> None"
    by (simp add: required_keys_def full_payload_def required_payload_def)
  have n: "py_int (JStr ''123'') = Inr 123" "py_int (JStr ''456'') = Inr 456"
    by (simp_all add: eval_defs)
  have a: "from_data example_enums 7 () required_payload = Inr required_sticker"
    by (simp add: eval_defs required_sticker_def)
  have "\<exists>s. from_data example_enums 7 () full_payload = Inr s
          \<and> pack_id s = 456 \<and> image_attr s = JStr ''abc''
          \<and> preview_image s = JStr ''def''"
    using optional_fields_default [of full_payload "JStr ''123''" 123 example_enums 7 "()", OF f] n
    by (simp add: full_payload_def required_payload_def)
  moreover have "\<exists>s. from_data example_enums 7 () required_payload = Inr s
          \<and> pack_id s = 0 \<and> image_attr s = JStr [] \<and> preview_image s = JNull"
    using optional_fields_default [of required_payload "JStr ''123''" 123 example_enums 7 "()", OF r] n
    by (simp add: required_payload_def)
  ultimately show ?thesis using a by auto
qed


text \<open>
  C5 as stated fails: having every required key is not enough for construction to
  succeed. With all seven required keys there, a \<^verbatim>\<open>pack_id\<close> that is no number makes
  \<^verbatim>\<open>int\<close> raise, so the value of the present key is not used; an \<^verbatim>\<open>id\<close> that is no
  number does the same with every optional key absent; and a \<^verbatim>\<open>tags\<close> that is
  \<^verbatim>\<open>null\<close> raises in \<^verbatim>\<open>split\<close>.
\<close>

theorem optional_fields_default_counterexample:
  "from_data example_enums 7 () bad_pack_id_payload = Inl ValueError
   \<and> bad_pack_id_payload ''id'' \<noteq> None \<and> bad_pack_id_payload ''name'' \<noteq> None
   \<and> bad_pack_id_payload ''description'' \<noteq> None
   \<and> bad_pack_id_payload ''format_type'' \<noteq> None
   \<and> bad_pack_id_payload ''type'' \<noteq> None \<and> bad_pack_id_payload ''version'' \<noteq> None
   \<and> bad_pack_id_payload ''available'' \<noteq> None
   \<and> bad_pack_id_payload ''pack_id'' = Some (JStr ''zz'')
   \<and> from_data example_enums 7 () bad_id_payload = Inl ValueError
   \<and> bad_id_payload ''id'' \<noteq> None \<and> bad_id_payload ''name'' \<noteq> None
   \<and> bad_id_payload ''description'' \<noteq> None \<and> bad_id_payload ''format_type'' \<noteq> None
   \<and> bad_id_payload ''type'' \<noteq> None \<and> bad_id_payload ''version'' \<noteq> None
   \<and> bad_id_payload ''available'' \<noteq> None
   \<and> bad_id_payload ''pack_id'' = None \<and> bad_id_payload ''asset'' = None
   \<and> bad_id_payload ''tags'' = None \<and> bad_id_payload ''preview_asset'' = None
   \<and> from_data example_enums 7 () null_tags_payload = Inl AttributeError
   \<and> null_tags_payload ''id'' \<noteq> None \<and> null_tags_payload ''name'' \<noteq> None
   \<and> null_tags_payload ''description'' \<noteq> None
   \<and> null_tags_payload ''format_type'' \<noteq> None
   \<and> null_tags_payload ''type'' \<noteq> None \<and> null_tags_payload ''version'' \<noteq> None
   \<and> null_tags_payload ''available'' \<noteq> None"
proof -
  have a: "from_data example_enums 7 () bad_pack_id_payload = Inl ValueError"
    by (simp add: eval_defs bad_pack_id_payload_def)
  have b: "from_data example_enums 7 () bad_id_payload = Inl ValueError"
    by (simp add: eval_defs bad_id_payload_def)
  have c: "from_data example_enums 7 () null_tags_payload = Inl AttributeError"
    by (simp add: eval_defs null_tags_payload_def)
  show ?thesis
    unfolding a b c
    by (simp add: bad_pack_id_payload_def bad_id_payload_def null_tags_payload_def
        required_payload_def)
qed

section \<open>Unrecognized codes\<close>

text \<open>
  C7: whether construction fails does not depend on the values under \<^verbatim>\<open>format_type\<close>
  and \<^verbatim>\<open>type\<close>; and when a code is not in the table of its enumeration, \<open>format\<close>
  is the string rendering of the raw code and \<open>type\<close> is the raw code itself.
\<close>

theorem unknown_codes_fallback:
  "(isl (from_data E gid st (p(''format_type'' \<mapsto> f, ''type'' \<mapsto> t)))
      \<longleftrightarrow> isl (from_data E gid st (p(''format_type'' \<mapsto> f', ''type'' \<mapsto> t'))))
   \<and> (from_data E gid st p = Inr s \<longrightarrow>
        (\<forall>c. p ''format_type'' = Some c \<and> StickerFormatType E c = None
               \<longrightarrow> format s = str_json c)
        \<and> (\<forall>c. p ''type'' = Some c \<and> StickerType E c = None
               \<longrightarrow> type_attr s = Json c))"
proof (intro conjI impI allI)
  show "isl (from_data E gid st (p(''format_type'' \<mapsto> f, ''type'' \<mapsto> t)))
      \<longleftrightarrow> isl (from_data E gid st (p(''format_type'' \<mapsto> f', ''type'' \<mapsto> t')))"
    unfolding from_data_isl_iff by (simp add: required_keys_def)
next
  fix c
  assume s: "from_data E gid st p = Inr s"
    and c: "p ''format_type'' = Some c \<and> StickerFormatType E c = None"
  from from_data_fields(5) [OF s] c show "format s = str_json c"
    by (auto simp: try_enum_def)
next
  fix c
  assume s: "from_data E gid st p = Inr s"
    and c: "p ''type'' = Some c \<and> StickerType E c = None"
  from from_data_fields(6) [OF s] c show "type_attr s = Json c"
    by (auto simp: try_enum_def)
qed

theorem unknown_codes_fallback_witness:
  "from_data example_enums 7 () unknown_codes_payload = Inr unknown_codes_sticker
   \<and> StickerFormatType example_enums (JInt 99) = None
   \<and> StickerType example_enums (JInt 7) = None
   \<and> format unknown_codes_sticker = ''99''
   \<and> type_attr unknown_codes_sticker = Json (JInt 7)
   \<and> \<not> isl (from_data example_enums 7 ()
             (required_payload(''format_type'' \<mapsto> JStr ''x'', ''type'' \<mapsto> JNull)))"
proof -
  have a: "from_data example_enums 7 () unknown_codes_payload = Inr unknown_codes_sticker"
    by (simp add: eval_defs unknown_codes_payload_def unknown_codes_sticker_def
        required_sticker_def show_int_def show_nat.simps digit_char_def)
  have k: "unknown_codes_payload ''format_type'' = Some (JInt 99)"
    "unknown_codes_payload ''type'' = Some (JInt 7)"
    "StickerFormatType example_enums (JInt 99) = None"
    "StickerType example_enums (JInt 7) = None"
    by (simp_all add: unknown_codes_payload_def example_enums_def)
  have n: "show_int 99 = ''99''"
    by (simp add: show_int_def show_nat.simps digit_char_def)
  note u = unknown_codes_fallback [of example_enums 7 "()" unknown_codes_payload
      "JInt 99" "JInt 7" "JStr ''x''" JNull unknown_codes_sticker]
  have m: "unknown_codes_payload(''format_type'' \<mapsto> JInt 99, ''type'' \<mapsto> JInt 7)
           = unknown_codes_payload"
    "unknown_codes_payload(''format_type'' \<mapsto> JStr ''x'', ''type'' \<mapsto> JNull)
           = required_payload(''format_type'' \<mapsto> JStr ''x'', ''type'' \<mapsto> JNull)"
    by (auto simp: unknown_codes_payload_def)
  have "format unknown_codes_sticker = ''99''"
    "type_attr unknown_codes_sticker = Json (JInt 7)"
    using u a k n by simp_all
  moreover have "\<not> isl (from_data example_enums 7 ()
             (required_payload(''format_type'' \<mapsto> JStr ''x'', ''type'' \<mapsto> JNull)))"
    using u a unfolding m by simp
  ultimately show ?thesis using a k by simp
qed


section \<open>Iteration\<close>

text \<open>
  C8: the iterator yields the pairs of name and value of the slots whose name does not
  start with an underscore, which leaves out \<^verbatim>\<open>_state\<close>, in the order of
  \<^verbatim>\<open>__slots__\<close>, and of these the ones whose value is not \<^verbatim>\<open>None\<close>. It is a function
  of the sticker alone and its result is a finite list, so every call gives the same
  fresh sequence.
\<close>

theorem iterator_public_fields:
  "iterator s =
     filter (\<lambda>(attr, value). value \<noteq> None_val)
       [(''id'', Json (JInt (id_attr s))), (''guild_id'', Json (JInt (guild_id s))),
        (''name'', Json (name s)), (''description'', Json (description s)),
        (''pack_id'', Json (JInt (pack_id s))), (''format'', Json (JStr (format s))),
        (''image'', Json (image_attr s)), (''type'', type_attr s),
        (''version'', Json (version s)), (''available'', Json (available s)),
        (''tags'', StrList (tags s)), (''preview_image'', Json (preview_image s))]
   \<and> [''id'', ''guild_id'', ''name'', ''description'', ''pack_id'', ''format'', ''image'',
       ''type'', ''version'', ''available'', ''tags'', ''preview_image'']
     = filter (\<lambda>attr. hd attr \<noteq> CHR ''_'') slots
   \<and> ''_state'' \<notin> fst ` set (iterator s)"
proof -
  have a: "iterator s =
     filter (\<lambda>(attr, value). value \<noteq> None_val)
       (map (\<lambda>attr. (attr, getattr s attr None_val))
          (filter (\<lambda>attr. hd attr \<noteq> CHR ''_'') slots))"
    unfolding iterator_def by (rule concat_map_guarded)
  have b: "map (\<lambda>attr. (attr, getattr s attr None_val))
          (filter (\<lambda>attr. hd attr \<noteq> CHR ''_'') slots) =
       [(''id'', Json (JInt (id_attr s))), (''guild_id'', Json (JInt (guild_id s))),
        (''name'', Json (name s)), (''description'', Json (description s)),
        (''pack_id'', Json (JInt (pack_id s))), (''format'', Json (JStr (format s))),
        (''image'', Json (image_attr s)), (''type'', type_attr s),
        (''version'', Json (version s)), (''available'', Json (available s)),
        (''tags'', StrList (tags s)), (''preview_image'', Json (preview_image s))]"
    unfolding public_slots by (simp add: getattr_def)
  have c: "''_state'' \<notin> fst ` set (iterator s)"
  proof
    assume "''_state'' \<in> fst ` set (iterator s)"
    then obtain v where "(''_state'', v) \<in> set (iterator s)" by auto
    then have "''_state'' \<in> set (filter (\<lambda>attr. hd attr \<noteq> CHR ''_'') slots)"
      unfolding a by auto
    then show False by simp
  qed
  show ?thesis using a b c public_slots by simp
qed

theorem iterator_public_fields_witness:
  "from_data example_enums 7 () required_payload = Inr required_sticker
   \<and> iterator required_sticker =
     [(''id'', Json (JInt 123)), (''guild_id'', Json (JInt 7)), (''name'', Json (JStr ''n'')),
      (''description'', Json (JStr ''d'')), (''pack_id'', Json (JInt 0)),
      (''format'', Json (JStr ''png'')), (''image'', Json (JStr [])),
      (''type'', Member (EnumMember ''StickerType'' ''standard'')),
      (''version'', Json (JInt 1)), (''available'', Json (JBool True)),
      (''tags'', StrList [])]"
proof -
  have "from_data example_enums 7 () required_payload = Inr required_sticker"
    by (simp add: eval_defs required_sticker_def)
  then show ?thesis
    using iterator_public_fields [of required_sticker]
    by (simp add: required_sticker_def)
qed

end
